theory Spec2Isabelle
  imports Main
begin

section \<open>Strings and the pieces of the Python library the linker calls\<close>

text \<open>
  Python strings are modelled as \<^typ>\<open>string\<close>: a character is a code point from 0
  to 255 (Latin-1). On these code points \<open>str.lower\<close> works character by character:
  it adds 32 to the letters \<open>A..Z\<close> (65 to 90) and to the cased letters 192 to 222
  other than the multiplication sign 215, and leaves every other code point alone. Two
  code points match under \<open>re.IGNORECASE\<close> exactly when their lower-case forms are
  equal.
\<close>

definition lower_char :: "char \<Rightarrow> char" where
  "lower_char c =
     (let n = (of_char c :: nat)
      in if (65 \<le> n \<and> n \<le> 90) \<or> (192 \<le> n \<and> n \<le> 222 \<and> n \<noteq> 215)
         then char_of (n + 32) else c)"

definition lower :: "string \<Rightarrow> string" where
  "lower s = map lower_char s"

definition startswith :: "string \<Rightarrow> string \<Rightarrow> bool" where
  "startswith s t = (take (length t) s = t)"

text \<open>\<open>t in s\<close> on Python strings: \<open>t\<close> occurs in \<open>s\<close> as a contiguous substring.\<close>

fun py_in :: "string \<Rightarrow> string \<Rightarrow> bool" where
  "py_in t [] = (t = [])"
| "py_in t (c # cs) = (startswith (c # cs) t \<or> py_in t cs)"

text \<open>\<open>p.rfind(c)\<close>: the last index of the character, or \<open>-1\<close>.\<close>

primrec rfind_aux :: "char \<Rightarrow> string \<Rightarrow> int \<Rightarrow> int \<Rightarrow> int" where
  "rfind_aux c [] i found = found"
| "rfind_aux c (x # xs) i found = rfind_aux c xs (i + 1) (if x = c then i else found)"

definition rfind :: "char \<Rightarrow> string \<Rightarrow> int" where
  "rfind c p = rfind_aux c p 0 (- 1)"

text \<open>
  \<open>os.path\<close> is \<open>posixpath\<close> or \<open>ntpath\<close>, depending on the host Maya runs on.
  \<open>splitext\<close> is the same routine on both (\<open>genericpath._splitext\<close>) and differs
  only in the separators; \<open>normpath\<close> and \<open>basename\<close> of the host are taken as
  parameters, with the POSIX ones written out below.
\<close>

datatype flavour = Posix | Nt

record os_path =
  flavour :: flavour
  normpath :: "string \<Rightarrow> string"
  basename :: "string \<Rightarrow> string"

definition sep :: "flavour \<Rightarrow> char" where
  "sep fl = (case fl of Posix \<Rightarrow> CHR ''/'' | Nt \<Rightarrow> CHR 0x5C)"

definition altsep :: "flavour \<Rightarrow> char option" where
  "altsep fl = (case fl of Posix \<Rightarrow> None | Nt \<Rightarrow> Some (CHR ''/''))"

text \<open>
  \<open>genericpath._splitext(p, sep, altsep, '.')\<close>: the extension starts at the last dot,
  provided that dot comes after the last separator and some character between the
  separator and the dot is not a dot (leading dots of a file name are no extension).
\<close>

definition splitext :: "flavour \<Rightarrow> string \<Rightarrow> string \<times> string" where
  "splitext fl p =
     (let sepIndex = (case altsep fl of
                        None \<Rightarrow> rfind (sep fl) p
                      | Some a \<Rightarrow> max (rfind (sep fl) p) (rfind a p));
          dotIndex = rfind (CHR ''.'') p
      in if dotIndex > sepIndex \<and>
            list_ex (\<lambda>c. c \<noteq> CHR ''.'')
              (take (nat (dotIndex - (sepIndex + 1))) (drop (nat (sepIndex + 1)) p))
         then (take (nat dotIndex) p, drop (nat dotIndex) p)
         else (p, []))"

subsection \<open>The POSIX instance of \<open>os.path\<close>\<close>

text \<open>\<open>s.split(c)\<close> and \<open>c.join(xs)\<close>.\<close>

fun split_on :: "char \<Rightarrow> string \<Rightarrow> string list" where
  "split_on c [] = [[]]"
| "split_on c (x # xs) =
     (if x = c then [] # split_on c xs
      else (case split_on c xs of [] \<Rightarrow> [[x]] | w # ws \<Rightarrow> (x # w) # ws))"

fun join :: "string \<Rightarrow> string list \<Rightarrow> string" where
  "join s [] = []"
| "join s [x] = x"
| "join s (x # y # ys) = x @ s @ join s (y # ys)"

text \<open>
  The loop of \<open>posixpath.normpath\<close> over the components: empty components and \<open>.\<close>
  are dropped, \<open>..\<close> pops the previous component unless there is none to pop.
\<close>

fun norm_comps :: "nat \<Rightarrow> string list \<Rightarrow> string list \<Rightarrow> string list" where
  "norm_comps initial_slashes [] new_comps = new_comps"
| "norm_comps initial_slashes (component # comps) new_comps =
     (if component = [] \<or> component = ''.'' then norm_comps initial_slashes comps new_comps
      else if component \<noteq> ''..'' \<or> (initial_slashes = 0 \<and> new_comps = []) \<or>
              (new_comps \<noteq> [] \<and> last new_comps = ''..'')
      then norm_comps initial_slashes comps (new_comps @ [component])
      else if new_comps \<noteq> [] then norm_comps initial_slashes comps (butlast new_comps)
      else norm_comps initial_slashes comps new_comps)"

definition posix_normpath :: "string \<Rightarrow> string" where
  "posix_normpath path =
     (if path = [] then ''.''
      else
        let initial_slashes =
              (if startswith path ''//'' \<and> \<not> startswith path ''///'' then 2
               else if startswith path ''/'' then 1 else (0::nat));
            comps = norm_comps initial_slashes (split_on (CHR ''/'') path) [];
            path' = replicate initial_slashes (CHR ''/'') @ join ''/'' comps
        in if path' = [] then ''.'' else path')"

definition posix_basename :: "string \<Rightarrow> string" where
  "posix_basename p = drop (nat (rfind (CHR ''/'') p + 1)) p"

definition posixpath :: os_path where
  "posixpath = \<lparr>flavour = Posix, normpath = posix_normpath, basename = posix_basename\<rparr>"

subsection \<open>The two regular expressions\<close>

text \<open>
  \<open>re.sub(r'_LOD.*', '', s)\<close>: every match starts at an occurrence of \<open>_LOD\<close> (case
  sensitive) and runs to the end of the line, since \<open>.\<close> does not match a newline;
  the scan goes on after the match.
\<close>

function re_sub_lod :: "string \<Rightarrow> string" where
  "re_sub_lod [] = []"
| "re_sub_lod (c # cs) =
     (if startswith (c # cs) ''_LOD''
      then re_sub_lod (dropWhile (\<lambda>x. x \<noteq> CHR 0x0A) (drop 4 (c # cs)))
      else c # re_sub_lod cs)"
  by pat_completeness auto
termination
proof (relation "measure length", goal_cases)
  case 1
  show ?case by simp
next
  case (2 c cs)
  have "length (dropWhile (\<lambda>x. x \<noteq> CHR 0x0A) (drop 4 (c # cs))) \<le> length (drop 4 (c # cs))"
    by (rule length_dropWhile_le)
  then show ?case by simp
next
  case (3 c cs)
  show ?case by simp
qed

text \<open>
  \<open>re.search(re.escape(term), s, re.IGNORECASE)\<close>: the leftmost position at which
  the literal \<open>term\<close> occurs in \<open>s\<close> up to case, as \<open>(match.start(), match.end())\<close>.
  An empty term matches at position 0, and a match object is always true.
\<close>

definition ci_startswith :: "string \<Rightarrow> string \<Rightarrow> bool" where
  "ci_startswith s t = (length t \<le> length s \<and> lower (take (length t) s) = lower t)"

fun re_search_from :: "string \<Rightarrow> nat \<Rightarrow> string \<Rightarrow> (nat \<times> nat) option" where
  "re_search_from t i [] = (if t = [] then Some (i, i) else None)"
| "re_search_from t i (c # cs) =
     (if ci_startswith (c # cs) t then Some (i, i + length t)
      else re_search_from t (Suc i) cs)"

definition re_search :: "string \<Rightarrow> string \<Rightarrow> (nat \<times> nat) option" where
  "re_search t s = re_search_from t 0 s"

section \<open>The naming dictionary\<close>

text \<open>
  The JSON document: per category key a list of \<open>{"name", "locked"}\<close> entries, and
  the two flags, each of which may be absent.
\<close>

record naming_entry =
  name :: string
  locked :: bool

record texture_data =
  categories :: "string \<rightharpoonup> naming_entry list"
  prefer_exr :: "bool option"
  udim :: "bool option"

text \<open>\<open>[entry['name'] for entry in json_data.get(key, [])]\<close>\<close>

definition term_names :: "texture_data \<Rightarrow> string \<Rightarrow> string list" where
  "term_names json_data key =
     (case categories json_data key of None \<Rightarrow> [] | Some entries \<Rightarrow> map name entries)"

section \<open>Linking a channel: Link\_Material.py\<close>

text \<open>
  The five functions \<open>set_maya_roughness_attributes\<close>, \<open>..._metallic_...\<close>,
  \<open>..._displacement_...\<close>, \<open>..._normal_...\<close> and \<open>..._opacity_...\<close> run the same
  four nested loops. The state of the loops is the path found so far (the source's
  \<open>found_valid_path\<close> is true exactly when the path variable is set: both are
  assigned together) and, for the properties about probing, the list of paths handed to
  \<open>os.path.exists\<close> so far.
\<close>

record search_state =
  texture_path :: "string option"
  probed :: "string list"

definition lod_levels :: "string list" where
  "lod_levels = ['''', ''_LOD0'', ''_LOD1'', ''_LOD2'']"

definition base_extensions :: "string list" where
  "base_extensions = [''.exr'', ''.jpg'', ''.png'', ''.tif'', ''.tiff'']"

text \<open>
  \<open>for ext in image_extensions: candidate_path = splitext(potential)[0] + ext;
  if os.path.exists(candidate_path): ...; break\<close>
\<close>

fun ext_loop ::
  "flavour \<Rightarrow> (string \<Rightarrow> bool) \<Rightarrow> string \<Rightarrow> string list \<Rightarrow> search_state \<Rightarrow> search_state" where
  "ext_loop fl exists potential [] s = s"
| "ext_loop fl exists potential (ext # exts) s =
     (let candidate_path = fst (splitext fl potential) @ ext;
          s' = s\<lparr>probed := probed s @ [candidate_path]\<rparr>
      in if exists candidate_path then s'\<lparr>texture_path := Some candidate_path\<rparr>
         else ext_loop fl exists potential exts s')"

text \<open>
  \<open>for lod in lod_levels\<close>: the matched span is replaced by the replacement term
  followed by the LOD suffix; \<open>norm\<close> is \<open>os.path.normpath\<close> in the roughness
  function and the identity in the other four.
\<close>

fun lod_loop ::
  "flavour \<Rightarrow> (string \<Rightarrow> string) \<Rightarrow> (string \<Rightarrow> bool) \<Rightarrow> string list \<Rightarrow> string \<Rightarrow> nat \<times> nat \<Rightarrow>
   string \<Rightarrow> string list \<Rightarrow> search_state \<Rightarrow> search_state" where
  "lod_loop fl norm exists image_extensions image_path m replacement [] s = s"
| "lod_loop fl norm exists image_extensions image_path m replacement (lod # lods) s =
     (let potential = norm (take (fst m) image_path @ replacement @ lod @ drop (snd m) image_path);
          s' = ext_loop fl exists potential image_extensions s
      in if texture_path s' \<noteq> None then s'
         else lod_loop fl norm exists image_extensions image_path m replacement lods s')"

text \<open>\<open>for replacement in terms: match = re.search(...); if match: ...\<close>\<close>

fun replacement_loop ::
  "flavour \<Rightarrow> (string \<Rightarrow> string) \<Rightarrow> (string \<Rightarrow> bool) \<Rightarrow> string list \<Rightarrow> string \<Rightarrow> string \<Rightarrow>
   string list \<Rightarrow> search_state \<Rightarrow> search_state" where
  "replacement_loop fl norm exists image_extensions image_path term [] s = s"
| "replacement_loop fl norm exists image_extensions image_path term (replacement # rs) s =
     (let s' = (case re_search term image_path of
                  None \<Rightarrow> s
                | Some m \<Rightarrow>
                    lod_loop fl norm exists image_extensions image_path m replacement lod_levels s)
      in if texture_path s' \<noteq> None then s'
         else replacement_loop fl norm exists image_extensions image_path term rs s')"

text \<open>\<open>for term in base_color_terms\<close>\<close>

fun term_loop ::
  "flavour \<Rightarrow> (string \<Rightarrow> string) \<Rightarrow> (string \<Rightarrow> bool) \<Rightarrow> string list \<Rightarrow> string \<Rightarrow> string list \<Rightarrow>
   string list \<Rightarrow> search_state \<Rightarrow> search_state" where
  "term_loop fl norm exists image_extensions image_path replacements [] s = s"
| "term_loop fl norm exists image_extensions image_path replacements (term # terms) s =
     (let s' = replacement_loop fl norm exists image_extensions image_path term replacements s
      in if texture_path s' \<noteq> None then s'
         else term_loop fl norm exists image_extensions image_path replacements terms s')"

text \<open>
  \<open>base_name, ext = os.path.splitext(image_path);
  base_name = re.sub(r'_LOD.*', '', base_name); image_path = base_name + ext\<close>
\<close>

definition strip_lod :: "flavour \<Rightarrow> string \<Rightarrow> string" where
  "strip_lod fl image_path =
     (case splitext fl image_path of (base_name, ext) \<Rightarrow> re_sub_lod base_name @ ext)"

text \<open>
  What a channel function does, as a value: the warning it prints before returning, or
  the path it sets as the file texture of the new node; with the probes it made.
\<close>

datatype link_result = Warning string | Linked string

text \<open>
  The body the five functions share. \<open>key\<close> is the category read from the JSON,
  \<open>label\<close> the word in the last warning, \<open>image_extensions\<close> the extension list of the
  function.
\<close>

definition link_channel ::
  "string \<Rightarrow> string \<Rightarrow> (string \<Rightarrow> string) \<Rightarrow> (texture_data \<Rightarrow> string list) \<Rightarrow>
   flavour \<Rightarrow> (string \<Rightarrow> bool) \<Rightarrow> texture_data option \<Rightarrow> string \<Rightarrow> string \<Rightarrow>
   link_result \<times> string list" where
  "link_channel key label norm image_extensions fl exists json_data image_path material =
     (if image_path = [] \<or> material = []
      then (Warning ''No valid image or material selected.'', [])
      else case json_data of
        None \<Rightarrow> (Warning ''No valid JSON data loaded.'', [])
      | Some d \<Rightarrow>
          let base_color_terms = term_names d ''BaseColor'';
              channel_terms = term_names d key
          in if base_color_terms = [] \<or> channel_terms = []
             then (Warning ''No valid texture terms found in the JSON data.'', [])
             else
               let s = term_loop fl norm exists (image_extensions d) (strip_lod fl image_path)
                         channel_terms base_color_terms
                         \<lparr>texture_path = None, probed = []\<rparr>
               in case texture_path s of
                    None \<Rightarrow> (Warning (''No '' @ label @ '' texture found at path''), probed s)
                  | Some p \<Rightarrow> (Linked p, probed s))"

definition set_maya_roughness_attributes ::
  "os_path \<Rightarrow> (string \<Rightarrow> bool) \<Rightarrow> texture_data option \<Rightarrow> string \<Rightarrow> string \<Rightarrow>
   link_result \<times> string list" where
  "set_maya_roughness_attributes os exists json_data image_path material =
     link_channel ''Roughness'' ''roughness'' (normpath os) (\<lambda>d. base_extensions)
       (flavour os) exists json_data image_path material"

definition set_maya_metallic_attributes ::
  "os_path \<Rightarrow> (string \<Rightarrow> bool) \<Rightarrow> texture_data option \<Rightarrow> string \<Rightarrow> string \<Rightarrow>
   link_result \<times> string list" where
  "set_maya_metallic_attributes os exists json_data image_path material =
     link_channel ''Metallic'' ''metallic'' (\<lambda>p. p) (\<lambda>d. base_extensions)
       (flavour os) exists json_data image_path material"

text \<open>
  \<open>image_extensions = [...]; if not prefer_exr: image_extensions.remove('.exr');
  image_extensions.append('.exr')\<close>, with \<open>prefer_exr = json_data.get("prefer_exr")\<close>,
  which is \<open>None\<close> (false) when the key is absent.
\<close>

definition displacement_extensions :: "texture_data \<Rightarrow> string list" where
  "displacement_extensions d =
     (if prefer_exr d = Some True then base_extensions
      else remove1 ''.exr'' base_extensions @ [''.exr''])"

definition set_maya_displacement_attributes ::
  "os_path \<Rightarrow> (string \<Rightarrow> bool) \<Rightarrow> texture_data option \<Rightarrow> string \<Rightarrow> string \<Rightarrow>
   link_result \<times> string list" where
  "set_maya_displacement_attributes os exists json_data image_path material =
     link_channel ''Height'' ''displacement'' (\<lambda>p. p) displacement_extensions
       (flavour os) exists json_data image_path material"

definition set_maya_normal_attributes ::
  "os_path \<Rightarrow> (string \<Rightarrow> bool) \<Rightarrow> texture_data option \<Rightarrow> string \<Rightarrow> string \<Rightarrow>
   link_result \<times> string list" where
  "set_maya_normal_attributes os exists json_data image_path material =
     link_channel ''Normal'' ''normal'' (\<lambda>p. p) (\<lambda>d. base_extensions)
       (flavour os) exists json_data image_path material"

definition set_maya_opacity_attributes ::
  "os_path \<Rightarrow> (string \<Rightarrow> bool) \<Rightarrow> texture_data option \<Rightarrow> string \<Rightarrow> string \<Rightarrow>
   link_result \<times> string list" where
  "set_maya_opacity_attributes os exists json_data image_path material =
     link_channel ''Opacity'' ''opacity'' (\<lambda>p. p) (\<lambda>d. base_extensions)
       (flavour os) exists json_data image_path material"

text \<open>
  \<open>validate_image_file\<close>: the lower-cased base name is searched for each of the
  dictionary's terms, then for the three default terms.
\<close>

fun any_term_in :: "string list \<Rightarrow> string \<Rightarrow> bool" where
  "any_term_in [] file_name = False"
| "any_term_in (term # all_terms) file_name =
     (if py_in (lower term) file_name then True else any_term_in all_terms file_name)"

definition additional_terms :: "string list" where
  "additional_terms = [''basecolor'', ''albedo'', ''diffuse'']"

definition validate_image_file :: "os_path \<Rightarrow> string \<Rightarrow> string list \<Rightarrow> bool" where
  "validate_image_file os file_path base_color_terms =
     (let file_name = lower (basename os file_path);
          all_terms = base_color_terms @ additional_terms
      in any_term_in all_terms file_name)"

section \<open>Editing the dictionary: Texture\_name\_manager.py\<close>

text \<open>
  \<open>str.strip()\<close> removes leading and trailing whitespace; among the code points 0 to
  255 the whitespace characters are 9 to 13, 28 to 32, 133 and 160.
\<close>

definition is_space :: "char \<Rightarrow> bool" where
  "is_space c =
     (let n = (of_char c :: nat)
      in (9 \<le> n \<and> n \<le> 13) \<or> (28 \<le> n \<and> n \<le> 32) \<or> n = 133 \<or> n = 160)"

definition strip :: "string \<Rightarrow> string" where
  "strip s = rev (dropWhile is_space (rev (dropWhile is_space s)))"

definition texture_type_of_tab :: "string \<Rightarrow> string option" where
  "texture_type_of_tab selected_tab =
     (if selected_tab = ''BaseColor'' then Some ''BaseColor''
      else if selected_tab = ''Roughness'' then Some ''Roughness''
      else if selected_tab = ''Metallic'' then Some ''Metallic''
      else if selected_tab = ''Normal'' then Some ''Normal''
      else if selected_tab = ''Height'' then Some ''Height''
      else if selected_tab = ''Specular'' then Some ''Specular''
      else if selected_tab = ''Opacity'' then Some ''Opacity''
      else None)"

datatype py_error = AttributeError

text \<open>
  What \<open>add_texture_name\<close> does to the stored document: nothing (\<open>Ignored\<close>: empty
  input or no valid tab), nothing but a dialog listing the duplicates (\<open>Rejected\<close>),
  or the document it saves (\<open>Saved\<close>). The loader returns \<open>None\<close> when the user
  cancels, and \<open>None.get\<close> raises.
\<close>

datatype add_outcome = Ignored | Rejected "string list" | Saved texture_data

definition add_texture_name ::
  "string \<Rightarrow> string \<Rightarrow> texture_data option \<Rightarrow> py_error + add_outcome" where
  "add_texture_name text_field selected_tab loaded =
     (let alternative_names = strip text_field
      in if alternative_names = [] then Inr Ignored
         else
           let alternative_names_list = map strip (split_on (CHR '','') alternative_names)
           in case texture_type_of_tab selected_tab of
                None \<Rightarrow> Inr Ignored
              | Some texture_type \<Rightarrow>
                  (case loaded of
                     None \<Rightarrow> Inl AttributeError
                   | Some texture_data \<Rightarrow>
                       let existing_names = term_names texture_data texture_type;
                           duplicates = filter (\<lambda>n. n \<in> set existing_names) alternative_names_list
                       in if duplicates \<noteq> [] then Inr (Rejected duplicates)
                          else
                            let texture_objects =
                                  map (\<lambda>n. \<lparr>name = n, locked = False\<rparr>) alternative_names_list
                            in Inr (Saved (texture_data\<lparr>categories :=
                                 (categories texture_data)(texture_type \<mapsto>
                                    (case categories texture_data texture_type of
                                       None \<Rightarrow> texture_objects
                                     | Some entries \<Rightarrow> entries @ texture_objects))\<rparr>))))"

section \<open>What the caller of a channel function receives\<close>

text \<open>
  Every exit of the five channel functions is a bare \<open>return\<close> after
  \<open>cmds.warning\<close>, or the end of the body after the texture node is wired: the
  caller receives \<open>None\<close> in each case, and none of these exits raises.
\<close>

datatype py_value = PyNone

definition python_return :: "link_result \<Rightarrow> py_error + py_value" where
  "python_return r = (case r of Warning message \<Rightarrow> Inr PyNone | Linked texture \<Rightarrow> Inr PyNone)"

text \<open>
  \<open>set_maya_bc_attributes\<close> wires the selected image itself; it probes nothing.
\<close>

definition set_maya_bc_attributes :: "string \<Rightarrow> string \<Rightarrow> link_result \<times> string list" where
  "set_maya_bc_attributes image_path material =
     (if image_path = [] \<or> material = []
      then (Warning ''No valid image or material selected.'', [])
      else (Linked image_path, []))"

text \<open>
  \<open>main\<close>, with the results of \<open>load_texture_names\<close>, \<open>get_selected_material\<close> and
  \<open>open_file_dialog\<close> as inputs. It calls the six functions one after the other and
  drops what they return; the value here lists what each of them did, in call order.
\<close>

datatype main_result = MainWarning string | NoFileSelected | Called "(link_result \<times> string list) list"

definition main ::
  "os_path \<Rightarrow> (string \<Rightarrow> bool) \<Rightarrow> texture_data option \<Rightarrow> string option \<Rightarrow> string option \<Rightarrow>
   main_result" where
  "main os exists json_data selected_material selected_file =
     (case json_data of
        None \<Rightarrow> MainWarning ''No valid JSON data loaded.''
      | Some d \<Rightarrow>
          let base_color_terms = term_names d ''BaseColor''
          in if base_color_terms = []
             then MainWarning ''No Base Color terms found in the JSON data.''
             else
               (case selected_material of
                  None \<Rightarrow> MainWarning ''No valid aiStandardSurface material selected.''
                | Some material \<Rightarrow>
                    if material = []
                    then MainWarning ''No valid aiStandardSurface material selected.''
                    else
                      (case selected_file of
                         None \<Rightarrow> NoFileSelected
                       | Some file_path \<Rightarrow>
                           if file_path = [] then NoFileSelected
                           else if \<not> validate_image_file os file_path base_color_terms
                           then MainWarning (''The selected image file does not contain any related '' @
                                  ''Basecolor Names in the filename. Please select the appropriate '' @
                                  ''BaseColor map.'')
                           else Called
                             [set_maya_bc_attributes file_path material,
                              set_maya_metallic_attributes os exists json_data file_path material,
                              set_maya_roughness_attributes os exists json_data file_path material,
                              set_maya_opacity_attributes os exists json_data file_path material,
                              set_maya_normal_attributes os exists json_data file_path material,
                              set_maya_displacement_attributes os exists json_data file_path
                                material])))"

section \<open>The candidate sequence\<close>

text \<open>
  The paths the four loops hand to \<open>os.path.exists\<close> when none of them exists, as a
  list: for one base-color term matched at span \<open>m\<close>, and for the list of terms.
\<close>

definition term_candidates ::
  "flavour \<Rightarrow> (string \<Rightarrow> string) \<Rightarrow> string list \<Rightarrow> string \<Rightarrow> string list \<Rightarrow> nat \<times> nat \<Rightarrow>
   string list" where
  "term_candidates fl norm image_extensions image_path replacements m =
     concat (map (\<lambda>replacement.
       concat (map (\<lambda>lod.
         map (\<lambda>ext. fst (splitext fl
                 (norm (take (fst m) image_path @ replacement @ lod @ drop (snd m) image_path))) @ ext)
             image_extensions)
         lod_levels))
       replacements)"

definition channel_candidates ::
  "flavour \<Rightarrow> (string \<Rightarrow> string) \<Rightarrow> string list \<Rightarrow> string \<Rightarrow> string list \<Rightarrow> string list \<Rightarrow>
   string list" where
  "channel_candidates fl norm image_extensions image_path replacements terms =
     concat (map (\<lambda>term.
       case re_search term image_path of
         None \<Rightarrow> []
       | Some m \<Rightarrow> term_candidates fl norm image_extensions image_path replacements m)
       terms)"

text \<open>Probing a list of paths in order, stopping at the first that exists.\<close>

fun probe :: "(string \<Rightarrow> bool) \<Rightarrow> string list \<Rightarrow> search_state \<Rightarrow> search_state" where
  "probe exists [] s = s"
| "probe exists (c # cs) s =
     (if exists c then s\<lparr>texture_path := Some c, probed := probed s @ [c]\<rparr>
      else probe exists cs (s\<lparr>probed := probed s @ [c]\<rparr>))"

text \<open>The candidates up to and including the first that exists.\<close>

definition first_hit_prefix :: "(string \<Rightarrow> bool) \<Rightarrow> string list \<Rightarrow> string list" where
  "first_hit_prefix exists cands =
     takeWhile (\<lambda>c. \<not> exists c) cands @ take 1 (dropWhile (\<lambda>c. \<not> exists c) cands)"

section \<open>The specification's resolver, in its own words\<close>

text \<open>
  Term Matcher: the first term, in dictionary order, that occurs in the file name, with
  the span of its first occurrence.
\<close>

fun spec_find_term :: "string \<Rightarrow> string list \<Rightarrow> (string \<times> nat \<times> nat) option" where
  "spec_find_term filename [] = None"
| "spec_find_term filename (t # terms) =
     (case re_search t filename of
        Some m \<Rightarrow> Some (t, m)
      | None \<Rightarrow> spec_find_term filename terms)"

text \<open>
  Candidate Generator: replacement terms outermost, LOD suffixes in the middle,
  extensions innermost; each candidate is the file name with the matched span replaced
  and the extension substituted.
\<close>

definition spec_generate ::
  "flavour \<Rightarrow> string \<Rightarrow> nat \<times> nat \<Rightarrow> string list \<Rightarrow> string list \<Rightarrow> string list \<Rightarrow> string list" where
  "spec_generate fl canonical_filename match_span replacement_terms lod_suffixes extensions =
     concat (map (\<lambda>replacement_term.
       concat (map (\<lambda>lod_suffix.
         map (\<lambda>extension.
               fst (splitext fl (take (fst match_span) canonical_filename @ replacement_term @
                                 lod_suffix @ drop (snd match_span) canonical_filename)) @ extension)
             extensions)
         lod_suffixes))
       replacement_terms)"

datatype spec_result = ConfigurationError | NotFound | Found string

text \<open>Channel Resolver, steps 1 to 5.\<close>

definition spec_resolve ::
  "flavour \<Rightarrow> (string \<Rightarrow> bool) \<Rightarrow> string \<Rightarrow> string list \<Rightarrow> string list \<Rightarrow> string list \<Rightarrow>
   spec_result" where
  "spec_resolve fl exists base_color_path base_color_terms target_terms extensions =
     (if base_color_terms = [] \<or> target_terms = [] then ConfigurationError
      else case spec_find_term (strip_lod fl base_color_path) base_color_terms of
        None \<Rightarrow> NotFound
      | Some (t, match_span) \<Rightarrow>
          (case List.find exists
                  (spec_generate fl (strip_lod fl base_color_path) match_span target_terms
                     lod_levels extensions) of
             None \<Rightarrow> NotFound
           | Some p \<Rightarrow> Found p))"

section \<open>Example dictionaries\<close>

definition rock_dictionary :: texture_data where
  "rock_dictionary =
     \<lparr>categories =
        [''BaseColor'' \<mapsto> [\<lparr>name = ''BaseColor'', locked = True\<rparr>,
                            \<lparr>name = ''Albedo'', locked = False\<rparr>],
         ''Roughness'' \<mapsto> [\<lparr>name = ''Roughness'', locked = True\<rparr>]],
      prefer_exr = None, udim = None\<rparr>"

definition studio_dictionary :: texture_data where
  "studio_dictionary =
     \<lparr>categories =
        [''BaseColor'' \<mapsto> [\<lparr>name = ''BaseColor'', locked = True\<rparr>,
                            \<lparr>name = ''Color'', locked = False\<rparr>],
         ''Roughness'' \<mapsto> [\<lparr>name = ''Roughness'', locked = True\<rparr>],
         ''Metallic'' \<mapsto> [\<lparr>name = ''Metallic'', locked = True\<rparr>],
         ''Normal'' \<mapsto> [\<lparr>name = ''Normal'', locked = True\<rparr>],
         ''Height'' \<mapsto> [\<lparr>name = ''Height'', locked = True\<rparr>],
         ''Opacity'' \<mapsto> [\<lparr>name = ''Opacity'', locked = True\<rparr>]],
      prefer_exr = Some False, udim = Some False\<rparr>"

definition layered_dictionary :: texture_data where
  "layered_dictionary =
     \<lparr>categories =
        [''BaseColor'' \<mapsto> [\<lparr>name = ''Albedo'', locked = False\<rparr>,
                            \<lparr>name = ''Color'', locked = False\<rparr>,
                            \<lparr>name = ''BaseColor'', locked = True\<rparr>],
         ''Roughness'' \<mapsto> [\<lparr>name = ''Roughness'', locked = True\<rparr>]],
      prefer_exr = None, udim = None\<rparr>"

definition roughness_only_dictionary :: texture_data where
  "roughness_only_dictionary =
     \<lparr>categories = [''Roughness'' \<mapsto> [\<lparr>name = ''Roughness'', locked = True\<rparr>]],
      prefer_exr = None, udim = None\<rparr>"

section \<open>The loops probe the candidate sequence\<close>

lemma probe_texture_path:
  "texture_path (probe exists cs s) =
     (case List.find exists cs of None \<Rightarrow> texture_path s | Some c \<Rightarrow> Some c)"
  by (induction cs arbitrary: s) (auto split: option.splits)

lemma probe_probed: "probed (probe exists cs s) = probed s @ first_hit_prefix exists cs"
  by (induction cs arbitrary: s) (auto simp: first_hit_prefix_def)

lemma probe_append:
  "texture_path s = None \<Longrightarrow>
   probe exists (xs @ ys) s =
     (if texture_path (probe exists xs s) \<noteq> None then probe exists xs s
      else probe exists ys (probe exists xs s))"
  by (induction xs arbitrary: s) auto

lemma ext_loop_probe:
  "ext_loop fl exists potential exts s =
     probe exists (map (\<lambda>ext. fst (splitext fl potential) @ ext) exts) s"
  by (induction exts arbitrary: s) (auto simp: Let_def)

lemma lod_loop_probe:
  "texture_path s = None \<Longrightarrow>
   lod_loop fl norm exists exts image_path m replacement lods s =
     probe exists (concat (map (\<lambda>lod.
         map (\<lambda>ext. fst (splitext fl
                 (norm (take (fst m) image_path @ replacement @ lod @ drop (snd m) image_path))) @ ext)
             exts) lods)) s"
proof (induction lods arbitrary: s)
  case Nil
  then show ?case by simp
next
  case (Cons lod lods)
  then show ?case
    by (simp add: Let_def ext_loop_probe probe_append)
qed

lemma replacement_loop_probe:
  "texture_path s = None \<Longrightarrow>
   replacement_loop fl norm exists exts image_path term replacements s =
     probe exists
       (case re_search term image_path of
          None \<Rightarrow> []
        | Some m \<Rightarrow> term_candidates fl norm exts image_path replacements m) s"
proof (induction replacements arbitrary: s)
  case Nil
  then show ?case by (simp add: term_candidates_def split: option.splits)
next
  case (Cons replacement rs)
  show ?case
  proof (cases "re_search term image_path")
    case None
    with Cons show ?thesis by simp
  next
    case (Some m)
    with Cons show ?thesis
      by (simp add: Let_def term_candidates_def lod_loop_probe probe_append)
  qed
qed

lemma channel_candidates_Cons:
  "channel_candidates fl norm exts image_path replacements (t # ts) =
     (case re_search t image_path of
        None \<Rightarrow> []
      | Some m \<Rightarrow> term_candidates fl norm exts image_path replacements m) @
     channel_candidates fl norm exts image_path replacements ts"
  by (simp add: channel_candidates_def)

lemma term_loop_probe:
  "texture_path s = None \<Longrightarrow>
   term_loop fl norm exists exts image_path replacements terms s =
     probe exists (channel_candidates fl norm exts image_path replacements terms) s"
proof (induction terms arbitrary: s)
  case Nil
  then show ?case by (simp add: channel_candidates_def)
next
  case (Cons t ts)
  then show ?case
    by (simp add: Let_def channel_candidates_Cons replacement_loop_probe probe_append)
qed

lemma link_channel_eq:
  assumes "image_path \<noteq> []" and "material \<noteq> []"
    and "term_names d ''BaseColor'' \<noteq> []" and "term_names d key \<noteq> []"
  shows "link_channel key label norm exts fl exists (Some d) image_path material =
     (let cands = channel_candidates fl norm (exts d) (strip_lod fl image_path)
                    (term_names d key) (term_names d ''BaseColor'')
      in (case List.find exists cands of
            None \<Rightarrow> Warning (''No '' @ label @ '' texture found at path'')
          | Some p \<Rightarrow> Linked p,
          first_hit_prefix exists cands))"
  using assms
  by (simp add: link_channel_def Let_def term_loop_probe probe_texture_path probe_probed
           split: option.splits)

lemmas channel_defs =
  set_maya_roughness_attributes_def set_maya_metallic_attributes_def
  set_maya_displacement_attributes_def set_maya_normal_attributes_def
  set_maya_opacity_attributes_def

lemma channel_candidates_no_replacements:
  "channel_candidates fl norm exts image_path [] terms = []"
  by (induction terms)
     (simp_all add: channel_candidates_def term_candidates_def split: option.splits)

lemma channel_candidates_no_terms:
  "channel_candidates fl norm exts image_path replacements [] = []"
  by (simp add: channel_candidates_def)

lemma first_hit_prefix_Nil: "first_hit_prefix exists [] = []"
  by (simp add: first_hit_prefix_def)

lemma first_hit_prefix_none:
  "\<forall>c\<in>set cands. \<not> exists c \<Longrightarrow> first_hit_prefix exists cands = cands"
  by (induction cands) (simp_all add: first_hit_prefix_def)

lemma find_none: "\<forall>c\<in>set cands. \<not> exists c \<Longrightarrow> List.find exists cands = None"
  by (simp add: find_None_iff)

lemma link_channel_no_terms:
  assumes "image_path \<noteq> []" and "material \<noteq> []"
    and "term_names d ''BaseColor'' = [] \<or> term_names d key = []"
  shows "link_channel key label norm exts fl exists (Some d) image_path material =
           (Warning ''No valid texture terms found in the JSON data.'', [])"
  using assms by (auto simp add: link_channel_def)

lemma link_channel_probes:
  assumes "image_path \<noteq> []" and "material \<noteq> []"
  shows "snd (link_channel key label norm exts fl exists (Some d) image_path material) =
     first_hit_prefix exists
       (channel_candidates fl norm (exts d) (strip_lod fl image_path)
          (term_names d key) (term_names d ''BaseColor''))"
proof (cases "term_names d ''BaseColor'' = [] \<or> term_names d key = []")
  case True
  then show ?thesis
    using assms
    by (auto simp add: link_channel_no_terms channel_candidates_no_replacements
          channel_candidates_no_terms first_hit_prefix_Nil)
next
  case False
  then show ?thesis
    using assms by (simp add: link_channel_eq Let_def)
qed

lemma link_channel_all_miss:
  assumes "image_path \<noteq> []" and "material \<noteq> []"
    and "term_names d ''BaseColor'' \<noteq> []" and "term_names d key \<noteq> []"
    and "\<forall>c\<in>set (channel_candidates fl norm (exts d) (strip_lod fl image_path)
          (term_names d key) (term_names d ''BaseColor'')). \<not> exists c"
  shows "link_channel key label norm exts fl exists (Some d) image_path material =
     (Warning (''No '' @ label @ '' texture found at path''),
      channel_candidates fl norm (exts d) (strip_lod fl image_path)
          (term_names d key) (term_names d ''BaseColor''))"
  using assms by (simp add: link_channel_eq Let_def find_none first_hit_prefix_none)

lemma studio_terms:
  "term_names studio_dictionary ''BaseColor'' = [''BaseColor'', ''Color'']"
  "term_names studio_dictionary ''Roughness'' = [''Roughness'']"
  "term_names studio_dictionary ''Metallic'' = [''Metallic'']"
  "term_names studio_dictionary ''Normal'' = [''Normal'']"
  "term_names studio_dictionary ''Height'' = [''Height'']"
  "term_names studio_dictionary ''Opacity'' = [''Opacity'']"
  by (simp_all add: term_names_def studio_dictionary_def)

lemma rock_terms:
  "term_names rock_dictionary ''BaseColor'' = [''BaseColor'', ''Albedo'']"
  "term_names rock_dictionary ''Roughness'' = [''Roughness'']"
  "term_names rock_dictionary ''Metallic'' = []"
  "term_names rock_dictionary ''Normal'' = []"
  "term_names rock_dictionary ''Height'' = []"
  "term_names rock_dictionary ''Opacity'' = []"
  by (simp_all add: term_names_def rock_dictionary_def)

lemma rock_candidates:
  "channel_candidates Posix posix_normpath base_extensions ''Rock_BaseColor.tif''
     [''Roughness''] [''BaseColor'', ''Albedo''] =
   [''Rock_Roughness.exr'', ''Rock_Roughness.jpg'', ''Rock_Roughness.png'',
    ''Rock_Roughness.tif'', ''Rock_Roughness.tiff'',
    ''Rock_Roughness_LOD0.exr'', ''Rock_Roughness_LOD0.jpg'', ''Rock_Roughness_LOD0.png'',
    ''Rock_Roughness_LOD0.tif'', ''Rock_Roughness_LOD0.tiff'',
    ''Rock_Roughness_LOD1.exr'', ''Rock_Roughness_LOD1.jpg'', ''Rock_Roughness_LOD1.png'',
    ''Rock_Roughness_LOD1.tif'', ''Rock_Roughness_LOD1.tiff'',
    ''Rock_Roughness_LOD2.exr'', ''Rock_Roughness_LOD2.jpg'', ''Rock_Roughness_LOD2.png'',
    ''Rock_Roughness_LOD2.tif'', ''Rock_Roughness_LOD2.tiff'']"
  by code_simp

section \<open>Case folding and whitespace beyond ASCII\<close>

text \<open>
  The term \<open>Email\<close> written with a capital E acute (code point 201) is found in a path
  that has the small e acute (233); a name followed by a no-break space (160) is stripped
  to the name.
\<close>

lemma re_search_folds_latin1:
  "re_search [CHR 0xC9, CHR ''m'', CHR ''a'', CHR ''i'', CHR ''l'']
     (''rock_'' @ [CHR 0xE9] @ ''mail.tif'') = Some (5, 10)"
  by code_simp

lemma validate_image_file_folds_latin1:
  "validate_image_file posixpath (''/textures/rock_'' @ [CHR 0xE9] @ ''mail.png'')
     [[CHR 0xC9, CHR ''m'', CHR ''a'', CHR ''i'', CHR ''l'']]"
  by code_simp

lemma strip_removes_no_break_space: "strip (''Albedo'' @ [CHR 0xA0]) = ''Albedo''"
  by code_simp

section \<open>The example scenario\<close>

lemma splitext_Rock_Roughness:
  "splitext fl ''Rock_Roughness.tif'' = (''Rock_Roughness'', ''.tif'')"
  by (cases fl; hypsubst; code_simp)

lemma strip_lod_Rock_BaseColor_tif:
  "strip_lod fl ''Rock_BaseColor.tif'' = ''Rock_BaseColor.tif''"
  by (cases fl; hypsubst; code_simp)

lemma re_search_BaseColor_tif: "re_search ''BaseColor'' ''Rock_BaseColor.tif'' = Some (5, 14)"
  by code_simp

lemma re_search_Albedo_tif: "re_search ''Albedo'' ''Rock_BaseColor.tif'' = None"
  by code_simp

text \<open>
  C1. With base-color terms \<open>BaseColor, Albedo\<close>, roughness term \<open>Roughness\<close>, a file
  system on which exactly \<open>Rock_Roughness.png\<close> exists and the input
  \<open>Rock_BaseColor.tif\<close>, the roughness function links \<open>Rock_Roughness.png\<close>, after
  probing \<open>Rock_Roughness.exr\<close>, \<open>Rock_Roughness.jpg\<close> and \<open>Rock_Roughness.png\<close> in
  this order: the candidates with the empty LOD suffix come first. This holds on either
  flavour of \<open>os.path\<close>, for a \<open>normpath\<close> that leaves \<open>Rock_Roughness.tif\<close> as it is.
\<close>

theorem example_scenario_roughness:
  assumes bc: "term_names d ''BaseColor'' = [''BaseColor'', ''Albedo'']"
    and ro: "term_names d ''Roughness'' = [''Roughness'']"
    and np: "normpath os ''Rock_Roughness.tif'' = ''Rock_Roughness.tif''"
    and mat: "material \<noteq> []"
  shows "set_maya_roughness_attributes os (\<lambda>p. p = ''Rock_Roughness.png'') (Some d)
           ''Rock_BaseColor.tif'' material =
         (Linked ''Rock_Roughness.png'',
          [''Rock_Roughness.exr'', ''Rock_Roughness.jpg'', ''Rock_Roughness.png''])"
proof -
  have first: "term_candidates (flavour os) (normpath os) base_extensions ''Rock_BaseColor.tif''
                 [''Roughness''] (5, 14) =
     [''Rock_Roughness.exr'', ''Rock_Roughness.jpg'', ''Rock_Roughness.png'',
      ''Rock_Roughness.tif'', ''Rock_Roughness.tiff''] @
     concat (map (\<lambda>lod. map (\<lambda>ext. fst (splitext (flavour os)
                 (normpath os (''Rock_Roughness'' @ lod @ ''.tif''))) @ ext) base_extensions)
          [''_LOD0'', ''_LOD1'', ''_LOD2''])"
    by (simp add: term_candidates_def lod_levels_def base_extensions_def np
          splitext_Rock_Roughness)
  show ?thesis
    unfolding set_maya_roughness_attributes_def
    by (simp add: link_channel_eq bc ro mat strip_lod_Rock_BaseColor_tif channel_candidates_def
          re_search_BaseColor_tif re_search_Albedo_tif first first_hit_prefix_def)
qed

theorem example_scenario_roughness_witness:
  "term_names rock_dictionary ''BaseColor'' = [''BaseColor'', ''Albedo''] \<and>
   term_names rock_dictionary ''Roughness'' = [''Roughness''] \<and>
   normpath posixpath ''Rock_Roughness.tif'' = ''Rock_Roughness.tif'' \<and>
   set_maya_roughness_attributes posixpath (\<lambda>p. p = ''Rock_Roughness.png'')
       (Some rock_dictionary) ''Rock_BaseColor.tif'' ''aiStandardSurface1'' =
     (Linked ''Rock_Roughness.png'',
      [''Rock_Roughness.exr'', ''Rock_Roughness.jpg'', ''Rock_Roughness.png''])"
proof -
  have bc: "term_names rock_dictionary ''BaseColor'' = [''BaseColor'', ''Albedo'']"
    by (simp add: term_names_def rock_dictionary_def)
  have ro: "term_names rock_dictionary ''Roughness'' = [''Roughness'']"
    by (simp add: term_names_def rock_dictionary_def)
  have np: "normpath posixpath ''Rock_Roughness.tif'' = ''Rock_Roughness.tif''"
    by code_simp
  have mat: "''aiStandardSurface1'' \<noteq> []"
    by simp
  show ?thesis
    using bc ro np example_scenario_roughness [OF bc ro np mat] by simp
qed

section \<open>Short-circuit probing\<close>

text \<open>
  C8. In each of the five channel functions, the paths handed to \<open>os.path.exists\<close>
  are, in order and once each, the candidates up to and including the first one that
  exists; nothing is probed after it.
\<close>

theorem probes_stop_at_first_hit:
  assumes "image_path \<noteq> []" and "material \<noteq> []"
  shows "snd (set_maya_roughness_attributes os exists (Some d) image_path material) =
           first_hit_prefix exists
             (channel_candidates (flavour os) (normpath os) base_extensions
                (strip_lod (flavour os) image_path)
                (term_names d ''Roughness'') (term_names d ''BaseColor'')) \<and>
         snd (set_maya_metallic_attributes os exists (Some d) image_path material) =
           first_hit_prefix exists
             (channel_candidates (flavour os) (\<lambda>p. p) base_extensions
                (strip_lod (flavour os) image_path)
                (term_names d ''Metallic'') (term_names d ''BaseColor'')) \<and>
         snd (set_maya_displacement_attributes os exists (Some d) image_path material) =
           first_hit_prefix exists
             (channel_candidates (flavour os) (\<lambda>p. p) (displacement_extensions d)
                (strip_lod (flavour os) image_path)
                (term_names d ''Height'') (term_names d ''BaseColor'')) \<and>
         snd (set_maya_normal_attributes os exists (Some d) image_path material) =
           first_hit_prefix exists
             (channel_candidates (flavour os) (\<lambda>p. p) base_extensions
                (strip_lod (flavour os) image_path)
                (term_names d ''Normal'') (term_names d ''BaseColor'')) \<and>
         snd (set_maya_opacity_attributes os exists (Some d) image_path material) =
           first_hit_prefix exists
             (channel_candidates (flavour os) (\<lambda>p. p) base_extensions
                (strip_lod (flavour os) image_path)
                (term_names d ''Opacity'') (term_names d ''BaseColor''))"
  using assms by (simp add: channel_defs link_channel_probes)

theorem probes_stop_at_first_hit_witness:
  "''Rock_BaseColor.tif'' \<noteq> [] \<and> ''aiStandardSurface1'' \<noteq> [] \<and>
   snd (set_maya_roughness_attributes posixpath (\<lambda>p. p = ''Rock_Roughness_LOD0.jpg'')
          (Some rock_dictionary) ''Rock_BaseColor.tif'' ''aiStandardSurface1'') =
     [''Rock_Roughness.exr'', ''Rock_Roughness.jpg'', ''Rock_Roughness.png'',
      ''Rock_Roughness.tif'', ''Rock_Roughness.tiff'',
      ''Rock_Roughness_LOD0.exr'', ''Rock_Roughness_LOD0.jpg'']"
  using probes_stop_at_first_hit [of "''Rock_BaseColor.tif''" "''aiStandardSurface1''" posixpath
              "\<lambda>p. p = ''Rock_Roughness_LOD0.jpg''" rock_dictionary]
  by (simp add: rock_terms posixpath_def strip_lod_Rock_BaseColor_tif rock_candidates
        first_hit_prefix_def)

section \<open>LOD suffix of the input\<close>

lemma strip_lod_Rock_LOD1:
  "strip_lod fl ''Rock_BaseColor_LOD1.png'' = ''Rock_BaseColor.png''"
  by (cases fl; hypsubst; code_simp)

lemma strip_lod_Rock_png: "strip_lod fl ''Rock_BaseColor.png'' = ''Rock_BaseColor.png''"
  by (cases fl; hypsubst; code_simp)

lemma link_channel_Rock_LOD1:
  "link_channel key label norm exts fl exists json_data ''Rock_BaseColor_LOD1.png'' material =
   link_channel key label norm exts fl exists json_data ''Rock_BaseColor.png'' material"
  by (cases json_data)
     (simp_all add: link_channel_def Let_def strip_lod_Rock_LOD1 strip_lod_Rock_png)

text \<open>
  C5. \<open>Rock_BaseColor_LOD1.png\<close> and \<open>Rock_BaseColor.png\<close> are the same input to every
  channel function: the LOD suffix is stripped before the terms are matched, so the
  probes and the result are the same, for every dictionary and every file system state.
\<close>

theorem lod_input_same_as_plain:
  "set_maya_roughness_attributes os exists json_data ''Rock_BaseColor_LOD1.png'' material =
   set_maya_roughness_attributes os exists json_data ''Rock_BaseColor.png'' material \<and>
   set_maya_metallic_attributes os exists json_data ''Rock_BaseColor_LOD1.png'' material =
   set_maya_metallic_attributes os exists json_data ''Rock_BaseColor.png'' material \<and>
   set_maya_displacement_attributes os exists json_data ''Rock_BaseColor_LOD1.png'' material =
   set_maya_displacement_attributes os exists json_data ''Rock_BaseColor.png'' material \<and>
   set_maya_normal_attributes os exists json_data ''Rock_BaseColor_LOD1.png'' material =
   set_maya_normal_attributes os exists json_data ''Rock_BaseColor.png'' material \<and>
   set_maya_opacity_attributes os exists json_data ''Rock_BaseColor_LOD1.png'' material =
   set_maya_opacity_attributes os exists json_data ''Rock_BaseColor.png'' material"
  by (simp add: channel_defs link_channel_Rock_LOD1)

section \<open>The order of the candidates\<close>

lemma first_hit_prefix_never: "first_hit_prefix (\<lambda>p. False) cands = cands"
  by (simp add: first_hit_prefix_none)

lemma channel_candidates_unfold:
  "channel_candidates fl norm exts image_path replacements terms =
     concat (map (\<lambda>term.
       case re_search term image_path of
         None \<Rightarrow> []
       | Some (match_start, match_end) \<Rightarrow>
           concat (map (\<lambda>replacement.
             concat (map (\<lambda>lod.
               map (\<lambda>ext. fst (splitext fl (norm (take match_start image_path @ replacement @
                                                  lod @ drop match_end image_path))) @ ext)
                   exts)
               ['''', ''_LOD0'', ''_LOD1'', ''_LOD2'']))
             replacements))
       terms)"
  by (simp add: channel_candidates_def term_candidates_def lod_levels_def split_def
           cong: option.case_cong)

text \<open>
  C2, as the code has it. When no candidate exists, each channel function probes the
  whole candidate sequence, and that sequence is a four-level enumeration: the base-color
  terms that occur in the stripped path are the outermost level (in dictionary order, each
  with the span of its first occurrence), then the replacement terms of the category, then
  the LOD suffixes \<open>""\<close>, \<open>_LOD0\<close>, \<open>_LOD1\<close>, \<open>_LOD2\<close>, then the
  extensions. A candidate is the path with the span replaced by the replacement term and
  the LOD suffix, normalised by \<open>os.path.normpath\<close> in the roughness function only, its
  extension cut off by \<open>splitext\<close> and the loop's extension put in its place.
\<close>

theorem candidate_enumeration:
  assumes "image_path \<noteq> []" and "material \<noteq> []"
  shows "snd (set_maya_roughness_attributes os (\<lambda>p. False) (Some d) image_path material) =
           channel_candidates (flavour os) (normpath os) base_extensions
             (strip_lod (flavour os) image_path)
             (term_names d ''Roughness'') (term_names d ''BaseColor'') \<and>
         snd (set_maya_metallic_attributes os (\<lambda>p. False) (Some d) image_path material) =
           channel_candidates (flavour os) (\<lambda>p. p) base_extensions
             (strip_lod (flavour os) image_path)
             (term_names d ''Metallic'') (term_names d ''BaseColor'') \<and>
         snd (set_maya_displacement_attributes os (\<lambda>p. False) (Some d) image_path material) =
           channel_candidates (flavour os) (\<lambda>p. p) (displacement_extensions d)
             (strip_lod (flavour os) image_path)
             (term_names d ''Height'') (term_names d ''BaseColor'') \<and>
         snd (set_maya_normal_attributes os (\<lambda>p. False) (Some d) image_path material) =
           channel_candidates (flavour os) (\<lambda>p. p) base_extensions
             (strip_lod (flavour os) image_path)
             (term_names d ''Normal'') (term_names d ''BaseColor'') \<and>
         snd (set_maya_opacity_attributes os (\<lambda>p. False) (Some d) image_path material) =
           channel_candidates (flavour os) (\<lambda>p. p) base_extensions
             (strip_lod (flavour os) image_path)
             (term_names d ''Opacity'') (term_names d ''BaseColor'') \<and>
         (\<forall>fl norm exts path replacements terms.
            channel_candidates fl norm exts path replacements terms =
              concat (map (\<lambda>term.
                case re_search term path of
                  None \<Rightarrow> []
                | Some (match_start, match_end) \<Rightarrow>
                    concat (map (\<lambda>replacement.
                      concat (map (\<lambda>lod.
                        map (\<lambda>ext. fst (splitext fl (norm (take match_start path @ replacement @
                                                           lod @ drop match_end path))) @ ext)
                            exts)
                        ['''', ''_LOD0'', ''_LOD1'', ''_LOD2'']))
                      replacements))
                terms))"
  using assms
  by (simp add: channel_defs link_channel_probes first_hit_prefix_never
        channel_candidates_unfold [symmetric])

theorem candidate_enumeration_witness:
  "''Rock_BaseColor.tif'' \<noteq> [] \<and> ''aiStandardSurface1'' \<noteq> [] \<and>
   snd (set_maya_roughness_attributes posixpath (\<lambda>p. False) (Some rock_dictionary)
          ''Rock_BaseColor.tif'' ''aiStandardSurface1'') =
   [''Rock_Roughness.exr'', ''Rock_Roughness.jpg'', ''Rock_Roughness.png'',
    ''Rock_Roughness.tif'', ''Rock_Roughness.tiff'',
    ''Rock_Roughness_LOD0.exr'', ''Rock_Roughness_LOD0.jpg'', ''Rock_Roughness_LOD0.png'',
    ''Rock_Roughness_LOD0.tif'', ''Rock_Roughness_LOD0.tiff'',
    ''Rock_Roughness_LOD1.exr'', ''Rock_Roughness_LOD1.jpg'', ''Rock_Roughness_LOD1.png'',
    ''Rock_Roughness_LOD1.tif'', ''Rock_Roughness_LOD1.tiff'',
    ''Rock_Roughness_LOD2.exr'', ''Rock_Roughness_LOD2.jpg'', ''Rock_Roughness_LOD2.png'',
    ''Rock_Roughness_LOD2.tif'', ''Rock_Roughness_LOD2.tiff'']"
  using candidate_enumeration [of "''Rock_BaseColor.tif''" "''aiStandardSurface1''" posixpath
          rock_dictionary]
  by (simp add: rock_terms posixpath_def strip_lod_Rock_BaseColor_tif rock_candidates)

text \<open>
  C2, as the specification words it, fails: with the base-color terms \<open>BaseColor, Color\<close>
  both occurring in \<open>Rock_BaseColor.tif\<close>, the metallic function goes on to the
  candidates of the second term after the twenty of the first; and for the input
  \<open>./Rock_BaseColor.tif\<close> the roughness function probes normalised paths, without the
  leading \<open>./\<close>.
\<close>

theorem candidate_enumeration_counterexample:
  "spec_find_term (strip_lod Posix ''Rock_BaseColor.tif'')
     (term_names studio_dictionary ''BaseColor'') = Some (''BaseColor'', 5, 14) \<and>
   snd (set_maya_metallic_attributes posixpath (\<lambda>p. False) (Some studio_dictionary)
          ''Rock_BaseColor.tif'' ''aiStandardSurface1'') \<noteq>
     spec_generate Posix (strip_lod Posix ''Rock_BaseColor.tif'') (5, 14)
       (term_names studio_dictionary ''Metallic'') lod_levels base_extensions \<and>
   spec_find_term (strip_lod Posix ''./Rock_BaseColor.tif'')
     (term_names rock_dictionary ''BaseColor'') = Some (''BaseColor'', 7, 16) \<and>
   snd (set_maya_roughness_attributes posixpath (\<lambda>p. False) (Some rock_dictionary)
          ''./Rock_BaseColor.tif'' ''aiStandardSurface1'') \<noteq>
     spec_generate Posix (strip_lod Posix ''./Rock_BaseColor.tif'') (7, 16)
       (term_names rock_dictionary ''Roughness'') lod_levels base_extensions"
  by code_simp

section \<open>The extension policy\<close>

lemma term_names_prefer_exr: "term_names (d\<lparr>prefer_exr := b\<rparr>) k = term_names d k"
  by (simp add: term_names_def)

lemma link_channel_prefer_exr:
  "link_channel key label norm (\<lambda>d. base_extensions) fl exists
     (Some (d\<lparr>prefer_exr := b\<rparr>)) image_path material =
   link_channel key label norm (\<lambda>d. base_extensions) fl exists (Some d) image_path material"
  by (simp add: link_channel_def term_names_def)

text \<open>
  C3. The displacement function orders the extensions \<open>.exr, .jpg, .png, .tif, .tiff\<close>
  when \<open>prefer_exr\<close> is true, and moves \<open>.exr\<close> to the end, the others keeping their
  order, when it is false or absent; these are the extensions its candidates are built
  with. The roughness, metallic, normal and opacity functions build their candidates with
  the exr-first list, and do not depend on the flag at all.
\<close>

theorem extension_policy:
  "displacement_extensions (d\<lparr>prefer_exr := Some True\<rparr>) =
     [''.exr'', ''.jpg'', ''.png'', ''.tif'', ''.tiff''] \<and>
   displacement_extensions (d\<lparr>prefer_exr := Some False\<rparr>) =
     [''.jpg'', ''.png'', ''.tif'', ''.tiff'', ''.exr''] \<and>
   displacement_extensions (d\<lparr>prefer_exr := None\<rparr>) =
     [''.jpg'', ''.png'', ''.tif'', ''.tiff'', ''.exr''] \<and>
   (image_path \<noteq> [] \<and> material \<noteq> [] \<longrightarrow>
      snd (set_maya_displacement_attributes os exists (Some d) image_path material) =
        first_hit_prefix exists
          (channel_candidates (flavour os) (\<lambda>p. p)
             (if prefer_exr d = Some True then [''.exr'', ''.jpg'', ''.png'', ''.tif'', ''.tiff'']
              else [''.jpg'', ''.png'', ''.tif'', ''.tiff'', ''.exr''])
             (strip_lod (flavour os) image_path)
             (term_names d ''Height'') (term_names d ''BaseColor'')) \<and>
      snd (set_maya_roughness_attributes os exists (Some d) image_path material) =
        first_hit_prefix exists
          (channel_candidates (flavour os) (normpath os)
             [''.exr'', ''.jpg'', ''.png'', ''.tif'', ''.tiff'']
             (strip_lod (flavour os) image_path)
             (term_names d ''Roughness'') (term_names d ''BaseColor'')) \<and>
      snd (set_maya_metallic_attributes os exists (Some d) image_path material) =
        first_hit_prefix exists
          (channel_candidates (flavour os) (\<lambda>p. p)
             [''.exr'', ''.jpg'', ''.png'', ''.tif'', ''.tiff'']
             (strip_lod (flavour os) image_path)
             (term_names d ''Metallic'') (term_names d ''BaseColor'')) \<and>
      snd (set_maya_normal_attributes os exists (Some d) image_path material) =
        first_hit_prefix exists
          (channel_candidates (flavour os) (\<lambda>p. p)
             [''.exr'', ''.jpg'', ''.png'', ''.tif'', ''.tiff'']
             (strip_lod (flavour os) image_path)
             (term_names d ''Normal'') (term_names d ''BaseColor'')) \<and>
      snd (set_maya_opacity_attributes os exists (Some d) image_path material) =
        first_hit_prefix exists
          (channel_candidates (flavour os) (\<lambda>p. p)
             [''.exr'', ''.jpg'', ''.png'', ''.tif'', ''.tiff'']
             (strip_lod (flavour os) image_path)
             (term_names d ''Opacity'') (term_names d ''BaseColor''))) \<and>
   set_maya_roughness_attributes os exists (Some (d\<lparr>prefer_exr := b\<rparr>)) image_path material =
     set_maya_roughness_attributes os exists (Some d) image_path material \<and>
   set_maya_metallic_attributes os exists (Some (d\<lparr>prefer_exr := b\<rparr>)) image_path material =
     set_maya_metallic_attributes os exists (Some d) image_path material \<and>
   set_maya_normal_attributes os exists (Some (d\<lparr>prefer_exr := b\<rparr>)) image_path material =
     set_maya_normal_attributes os exists (Some d) image_path material \<and>
   set_maya_opacity_attributes os exists (Some (d\<lparr>prefer_exr := b\<rparr>)) image_path material =
     set_maya_opacity_attributes os exists (Some d) image_path material"
proof -
  have policy: "displacement_extensions x =
      (if prefer_exr x = Some True then [''.exr'', ''.jpg'', ''.png'', ''.tif'', ''.tiff'']
       else [''.jpg'', ''.png'', ''.tif'', ''.tiff'', ''.exr''])" for x
    by (simp add: displacement_extensions_def base_extensions_def)
  have base: "base_extensions = [''.exr'', ''.jpg'', ''.png'', ''.tif'', ''.tiff'']"
    by (simp add: base_extensions_def)
  have probes: "image_path \<noteq> [] \<and> material \<noteq> [] \<longrightarrow>
      snd (set_maya_displacement_attributes os exists (Some d) image_path material) =
        first_hit_prefix exists
          (channel_candidates (flavour os) (\<lambda>p. p) (displacement_extensions d)
             (strip_lod (flavour os) image_path)
             (term_names d ''Height'') (term_names d ''BaseColor'')) \<and>
      snd (set_maya_roughness_attributes os exists (Some d) image_path material) =
        first_hit_prefix exists
          (channel_candidates (flavour os) (normpath os) base_extensions
             (strip_lod (flavour os) image_path)
             (term_names d ''Roughness'') (term_names d ''BaseColor'')) \<and>
      snd (set_maya_metallic_attributes os exists (Some d) image_path material) =
        first_hit_prefix exists
          (channel_candidates (flavour os) (\<lambda>p. p) base_extensions
             (strip_lod (flavour os) image_path)
             (term_names d ''Metallic'') (term_names d ''BaseColor'')) \<and>
      snd (set_maya_normal_attributes os exists (Some d) image_path material) =
        first_hit_prefix exists
          (channel_candidates (flavour os) (\<lambda>p. p) base_extensions
             (strip_lod (flavour os) image_path)
             (term_names d ''Normal'') (term_names d ''BaseColor'')) \<and>
      snd (set_maya_opacity_attributes os exists (Some d) image_path material) =
        first_hit_prefix exists
          (channel_candidates (flavour os) (\<lambda>p. p) base_extensions
             (strip_lod (flavour os) image_path)
             (term_names d ''Opacity'') (term_names d ''BaseColor''))"
    by (simp add: channel_defs link_channel_probes)
  have same: "set_maya_roughness_attributes os exists (Some (d\<lparr>prefer_exr := b\<rparr>)) image_path material =
     set_maya_roughness_attributes os exists (Some d) image_path material"
    "set_maya_metallic_attributes os exists (Some (d\<lparr>prefer_exr := b\<rparr>)) image_path material =
     set_maya_metallic_attributes os exists (Some d) image_path material"
    "set_maya_normal_attributes os exists (Some (d\<lparr>prefer_exr := b\<rparr>)) image_path material =
     set_maya_normal_attributes os exists (Some d) image_path material"
    "set_maya_opacity_attributes os exists (Some (d\<lparr>prefer_exr := b\<rparr>)) image_path material =
     set_maya_opacity_attributes os exists (Some d) image_path material"
    by (simp_all add: channel_defs link_channel_prefer_exr)
  from probes same show ?thesis
    by (simp add: policy base)
qed

lemma height_probes:
  "first_hit_prefix (\<lambda>p. p = ''Rock_Height.png'')
     (channel_candidates Posix (\<lambda>p. p) [''.exr'', ''.jpg'', ''.png'', ''.tif'', ''.tiff'']
        ''Rock_BaseColor.tif'' [''Height''] [''BaseColor'', ''Color'']) =
   [''Rock_Height.exr'', ''Rock_Height.jpg'', ''Rock_Height.png'']"
  "first_hit_prefix (\<lambda>p. p = ''Rock_Height.png'')
     (channel_candidates Posix (\<lambda>p. p) [''.jpg'', ''.png'', ''.tif'', ''.tiff'', ''.exr'']
        ''Rock_BaseColor.tif'' [''Height''] [''BaseColor'', ''Color'']) =
   [''Rock_Height.jpg'', ''Rock_Height.png'']"
  by code_simp+

lemma metallic_probes:
  "first_hit_prefix (\<lambda>p. p = ''Rock_Metallic.png'')
     (channel_candidates Posix (\<lambda>p. p) [''.exr'', ''.jpg'', ''.png'', ''.tif'', ''.tiff'']
        ''Rock_BaseColor.tif'' [''Metallic''] [''BaseColor'', ''Color'']) =
   [''Rock_Metallic.exr'', ''Rock_Metallic.jpg'', ''Rock_Metallic.png'']"
  by code_simp

theorem extension_policy_witness:
  "''Rock_BaseColor.tif'' \<noteq> [] \<and> ''aiStandardSurface1'' \<noteq> [] \<and>
   snd (set_maya_displacement_attributes posixpath (\<lambda>p. p = ''Rock_Height.png'')
          (Some (studio_dictionary\<lparr>prefer_exr := Some True\<rparr>))
          ''Rock_BaseColor.tif'' ''aiStandardSurface1'') =
     [''Rock_Height.exr'', ''Rock_Height.jpg'', ''Rock_Height.png''] \<and>
   snd (set_maya_displacement_attributes posixpath (\<lambda>p. p = ''Rock_Height.png'')
          (Some (studio_dictionary\<lparr>prefer_exr := Some False\<rparr>))
          ''Rock_BaseColor.tif'' ''aiStandardSurface1'') =
     [''Rock_Height.jpg'', ''Rock_Height.png''] \<and>
   snd (set_maya_metallic_attributes posixpath (\<lambda>p. p = ''Rock_Metallic.png'')
          (Some (studio_dictionary\<lparr>prefer_exr := Some False\<rparr>))
          ''Rock_BaseColor.tif'' ''aiStandardSurface1'') =
     [''Rock_Metallic.exr'', ''Rock_Metallic.jpg'', ''Rock_Metallic.png'']"
proof -
  note height_on =
    extension_policy [of "studio_dictionary\<lparr>prefer_exr := Some True\<rparr>"
      "''Rock_BaseColor.tif''" "''aiStandardSurface1''" posixpath
      "\<lambda>p. p = ''Rock_Height.png''", THEN conjunct2, THEN conjunct2, THEN conjunct2,
      THEN conjunct1]
  note height_off =
    extension_policy [of "studio_dictionary\<lparr>prefer_exr := Some False\<rparr>"
      "''Rock_BaseColor.tif''" "''aiStandardSurface1''" posixpath
      "\<lambda>p. p = ''Rock_Height.png''", THEN conjunct2, THEN conjunct2, THEN conjunct2,
      THEN conjunct1]
  note metallic_off =
    extension_policy [of "studio_dictionary\<lparr>prefer_exr := Some False\<rparr>"
      "''Rock_BaseColor.tif''" "''aiStandardSurface1''" posixpath
      "\<lambda>p. p = ''Rock_Metallic.png''", THEN conjunct2, THEN conjunct2, THEN conjunct2,
      THEN conjunct1]
  have given: "''Rock_BaseColor.tif'' \<noteq> [] \<and> ''aiStandardSurface1'' \<noteq> []"
    by simp
  have "snd (set_maya_displacement_attributes posixpath (\<lambda>p. p = ''Rock_Height.png'')
          (Some (studio_dictionary\<lparr>prefer_exr := Some True\<rparr>))
          ''Rock_BaseColor.tif'' ''aiStandardSurface1'') =
     [''Rock_Height.exr'', ''Rock_Height.jpg'', ''Rock_Height.png'']"
    using height_on [rule_format, OF given, THEN conjunct1]
    by (simp add: term_names_prefer_exr studio_terms posixpath_def
          strip_lod_Rock_BaseColor_tif height_probes)
  moreover have "snd (set_maya_displacement_attributes posixpath (\<lambda>p. p = ''Rock_Height.png'')
          (Some (studio_dictionary\<lparr>prefer_exr := Some False\<rparr>))
          ''Rock_BaseColor.tif'' ''aiStandardSurface1'') =
     [''Rock_Height.jpg'', ''Rock_Height.png'']"
    using height_off [rule_format, OF given, THEN conjunct1]
    by (simp add: term_names_prefer_exr studio_terms posixpath_def
          strip_lod_Rock_BaseColor_tif height_probes)
  moreover have "snd (set_maya_metallic_attributes posixpath (\<lambda>p. p = ''Rock_Metallic.png'')
          (Some (studio_dictionary\<lparr>prefer_exr := Some False\<rparr>))
          ''Rock_BaseColor.tif'' ''aiStandardSurface1'') =
     [''Rock_Metallic.exr'', ''Rock_Metallic.jpg'', ''Rock_Metallic.png'']"
    using metallic_off [rule_format, OF given, THEN conjunct2, THEN conjunct2, THEN conjunct1]
    by (simp add: term_names_prefer_exr studio_terms posixpath_def
          strip_lod_Rock_BaseColor_tif metallic_probes)
  ultimately show ?thesis by simp
qed

section \<open>Priority of the base-color terms\<close>

lemma re_search_from_leftmost:
  "re_search_from t i s = Some m \<Longrightarrow>
   \<exists>k. m = (i + k, i + k + length t) \<and> ci_startswith (drop k s) t \<and>
       (\<forall>j<k. \<not> ci_startswith (drop j s) t)"
proof (induction s arbitrary: i)
  case Nil
  then show ?case
    by (auto simp: ci_startswith_def lower_def split: if_splits)
next
  case (Cons c cs)
  show ?case
  proof (cases "ci_startswith (c # cs) t")
    case True
    with Cons.prems have "m = (i + 0, i + 0 + length t)" by simp
    with True show ?thesis by (intro exI [of _ 0]) simp
  next
    case False
    with Cons.prems have "re_search_from t (Suc i) cs = Some m" by simp
    from Cons.IH [OF this] obtain k where
      k: "m = (Suc i + k, Suc i + k + length t)" "ci_startswith (drop k cs) t"
         "\<forall>j<k. \<not> ci_startswith (drop j cs) t"
      by blast
    have "\<forall>j<Suc k. \<not> ci_startswith (drop j (c # cs)) t"
    proof (intro allI impI)
      fix j assume "j < Suc k"
      then show "\<not> ci_startswith (drop j (c # cs)) t"
        using False k(3) by (cases j) auto
    qed
    with k show ?thesis by (intro exI [of _ "Suc k"]) simp
  qed
qed

lemma re_search_leftmost:
  assumes "re_search t s = Some m"
  shows "snd m = fst m + length t \<and> ci_startswith (drop (fst m) s) t \<and>
         (\<forall>j<fst m. \<not> ci_startswith (drop j s) t)"
  using re_search_from_leftmost [of t 0 s m] assms by (auto simp: re_search_def)

lemma channel_candidates_append:
  "channel_candidates fl norm exts p repls (xs @ ys) =
   channel_candidates fl norm exts p repls xs @ channel_candidates fl norm exts p repls ys"
  by (simp add: channel_candidates_def)

lemma channel_candidates_unmatched:
  "\<forall>u\<in>set pre. re_search u p = None \<Longrightarrow> channel_candidates fl norm exts p repls pre = []"
  by (induction pre) (simp_all add: channel_candidates_def)

lemma channel_candidates_first_match:
  assumes "\<forall>u\<in>set pre. re_search u p = None" and "re_search t p = Some m"
  shows "channel_candidates fl norm exts p repls (pre @ t # post) =
     term_candidates fl norm exts p repls m @ channel_candidates fl norm exts p repls post"
  using assms
  by (simp add: channel_candidates_append channel_candidates_unmatched channel_candidates_Cons)

text \<open>
  C4, as the code has it. Let \<open>t\<close> be the first base-color term, in dictionary order,
  that occurs in the stripped path, at span \<open>m\<close>. The roughness function probes the
  candidates built from \<open>t\<close> before any candidate built from a later term, wherever the
  terms occur in the path; the span is that of the leftmost occurrence of \<open>t\<close>. The
  later terms are not dropped: their candidates follow, and the result is the first
  existing path of the whole sequence.
\<close>

theorem earlier_term_tried_first:
  assumes "image_path \<noteq> []" and "material \<noteq> []" and "term_names d ''Roughness'' \<noteq> []"
    and "term_names d ''BaseColor'' = pre @ t # post"
    and "\<forall>u\<in>set pre. re_search u (strip_lod (flavour os) image_path) = None"
    and "re_search t (strip_lod (flavour os) image_path) = Some m"
  shows "snd (set_maya_roughness_attributes os exists (Some d) image_path material) =
           first_hit_prefix exists
             (term_candidates (flavour os) (normpath os) base_extensions
                (strip_lod (flavour os) image_path) (term_names d ''Roughness'') m @
              channel_candidates (flavour os) (normpath os) base_extensions
                (strip_lod (flavour os) image_path) (term_names d ''Roughness'') post) \<and>
         fst (set_maya_roughness_attributes os exists (Some d) image_path material) =
           (case List.find exists
              (term_candidates (flavour os) (normpath os) base_extensions
                 (strip_lod (flavour os) image_path) (term_names d ''Roughness'') m @
               channel_candidates (flavour os) (normpath os) base_extensions
                 (strip_lod (flavour os) image_path) (term_names d ''Roughness'') post) of
              None \<Rightarrow> Warning ''No roughness texture found at path''
            | Some c \<Rightarrow> Linked c) \<and>
         snd m = fst m + length t \<and>
         ci_startswith (drop (fst m) (strip_lod (flavour os) image_path)) t \<and>
         (\<forall>j<fst m. \<not> ci_startswith (drop j (strip_lod (flavour os) image_path)) t)"
proof -
  have bc: "term_names d ''BaseColor'' \<noteq> []"
    using assms(4) by simp
  have cands: "channel_candidates (flavour os) (normpath os) base_extensions
        (strip_lod (flavour os) image_path) (term_names d ''Roughness'') (term_names d ''BaseColor'') =
      term_candidates (flavour os) (normpath os) base_extensions
        (strip_lod (flavour os) image_path) (term_names d ''Roughness'') m @
      channel_candidates (flavour os) (normpath os) base_extensions
        (strip_lod (flavour os) image_path) (term_names d ''Roughness'') post"
    unfolding assms(4) using assms(5,6) by (rule channel_candidates_first_match)
  have run: "set_maya_roughness_attributes os exists (Some d) image_path material =
      (case List.find exists
              (term_candidates (flavour os) (normpath os) base_extensions
                 (strip_lod (flavour os) image_path) (term_names d ''Roughness'') m @
               channel_candidates (flavour os) (normpath os) base_extensions
                 (strip_lod (flavour os) image_path) (term_names d ''Roughness'') post) of
              None \<Rightarrow> Warning ''No roughness texture found at path''
            | Some c \<Rightarrow> Linked c,
       first_hit_prefix exists
             (term_candidates (flavour os) (normpath os) base_extensions
                (strip_lod (flavour os) image_path) (term_names d ''Roughness'') m @
              channel_candidates (flavour os) (normpath os) base_extensions
                (strip_lod (flavour os) image_path) (term_names d ''Roughness'') post))"
    unfolding set_maya_roughness_attributes_def
    using assms(1,2,3) bc by (simp add: link_channel_eq Let_def cands split: option.splits)
  from run re_search_leftmost [OF assms(6)] show ?thesis by simp
qed

lemma layered_terms:
  "term_names layered_dictionary ''BaseColor'' = [''Albedo''] @ ''Color'' # [''BaseColor'']"
  "term_names layered_dictionary ''Roughness'' = [''Roughness'']"
  by (simp_all add: term_names_def layered_dictionary_def)

lemma re_search_Color_tif: "re_search ''Color'' ''Rock_BaseColor.tif'' = Some (9, 14)"
  by code_simp

lemma layered_run:
  "first_hit_prefix (\<lambda>p. p = ''Rock_BaseRoughness.png'' \<or> p = ''Rock_Roughness.exr'')
     (term_candidates Posix posix_normpath base_extensions ''Rock_BaseColor.tif''
        [''Roughness''] (9, 14) @
      channel_candidates Posix posix_normpath base_extensions ''Rock_BaseColor.tif''
        [''Roughness''] [''BaseColor'']) =
   [''Rock_BaseRoughness.exr'', ''Rock_BaseRoughness.jpg'', ''Rock_BaseRoughness.png'']"
  "List.find (\<lambda>p. p = ''Rock_BaseRoughness.png'' \<or> p = ''Rock_Roughness.exr'')
     (term_candidates Posix posix_normpath base_extensions ''Rock_BaseColor.tif''
        [''Roughness''] (9, 14) @
      channel_candidates Posix posix_normpath base_extensions ''Rock_BaseColor.tif''
        [''Roughness''] [''BaseColor'']) = Some ''Rock_BaseRoughness.png''"
  by code_simp+

theorem earlier_term_tried_first_witness:
  "''Rock_BaseColor.tif'' \<noteq> [] \<and> ''aiStandardSurface1'' \<noteq> [] \<and>
   term_names layered_dictionary ''Roughness'' \<noteq> [] \<and>
   term_names layered_dictionary ''BaseColor'' = [''Albedo''] @ ''Color'' # [''BaseColor''] \<and>
   re_search ''Albedo'' (strip_lod (flavour posixpath) ''Rock_BaseColor.tif'') = None \<and>
   re_search ''Color'' (strip_lod (flavour posixpath) ''Rock_BaseColor.tif'') = Some (9, 14) \<and>
   re_search ''BaseColor'' (strip_lod (flavour posixpath) ''Rock_BaseColor.tif'') = Some (5, 14) \<and>
   set_maya_roughness_attributes posixpath
       (\<lambda>p. p = ''Rock_BaseRoughness.png'' \<or> p = ''Rock_Roughness.exr'')
       (Some layered_dictionary) ''Rock_BaseColor.tif'' ''aiStandardSurface1'' =
     (Linked ''Rock_BaseRoughness.png'',
      [''Rock_BaseRoughness.exr'', ''Rock_BaseRoughness.jpg'', ''Rock_BaseRoughness.png''])"
proof -
  have fl: "flavour posixpath = Posix" and np: "normpath posixpath = posix_normpath"
    by (simp_all add: posixpath_def)
  have pre: "\<forall>u\<in>set [''Albedo'']. re_search u (strip_lod (flavour posixpath) ''Rock_BaseColor.tif'') = None"
    by (simp add: strip_lod_Rock_BaseColor_tif re_search_Albedo_tif)
  have hit: "re_search ''Color'' (strip_lod (flavour posixpath) ''Rock_BaseColor.tif'') = Some (9, 14)"
    by (simp add: strip_lod_Rock_BaseColor_tif re_search_Color_tif)
  have ro: "term_names layered_dictionary ''Roughness'' \<noteq> []"
    by (simp add: layered_terms)
  note run = earlier_term_tried_first [of "''Rock_BaseColor.tif''" "''aiStandardSurface1''"
      layered_dictionary "[''Albedo'']" "''Color''" "[''BaseColor'']" posixpath "(9, 14)"
      "\<lambda>p. p = ''Rock_BaseRoughness.png'' \<or> p = ''Rock_Roughness.exr''",
      OF _ _ ro layered_terms(1) pre hit]
  have "set_maya_roughness_attributes posixpath
       (\<lambda>p. p = ''Rock_BaseRoughness.png'' \<or> p = ''Rock_Roughness.exr'')
       (Some layered_dictionary) ''Rock_BaseColor.tif'' ''aiStandardSurface1'' =
     (Linked ''Rock_BaseRoughness.png'',
      [''Rock_BaseRoughness.exr'', ''Rock_BaseRoughness.jpg'', ''Rock_BaseRoughness.png''])"
    using run
    by (simp add: prod_eq_iff fl np strip_lod_Rock_BaseColor_tif layered_terms layered_run)
  then show ?thesis
    by (simp add: layered_terms strip_lod_Rock_BaseColor_tif re_search_Albedo_tif
          re_search_Color_tif re_search_BaseColor_tif)
qed

text \<open>
  C4, as the specification words it, fails: with the terms \<open>BaseColor, Color\<close> and only
  \<open>Rock_BaseRoughness.png\<close> on disk, the winning term is \<open>BaseColor\<close> and a resolver
  that matches with it alone finds nothing, while the roughness function links the file
  built from the later term \<open>Color\<close>.
\<close>

theorem earlier_term_counterexample:
  "spec_find_term (strip_lod Posix ''Rock_BaseColor.tif'')
     (term_names studio_dictionary ''BaseColor'') = Some (''BaseColor'', 5, 14) \<and>
   spec_resolve Posix (\<lambda>p. p = ''Rock_BaseRoughness.png'') ''Rock_BaseColor.tif''
     (term_names studio_dictionary ''BaseColor'') (term_names studio_dictionary ''Roughness'')
     base_extensions = NotFound \<and>
   re_search ''Color'' (strip_lod Posix ''Rock_BaseColor.tif'') = Some (9, 14) \<and>
   fst (set_maya_roughness_attributes posixpath (\<lambda>p. p = ''Rock_BaseRoughness.png'')
          (Some studio_dictionary) ''Rock_BaseColor.tif'' ''aiStandardSurface1'') =
     Linked ''Rock_BaseRoughness.png''"
  by code_simp

section \<open>Missing terms and missing files\<close>

text \<open>
  C6, as the code has it. When the dictionary has no base-color term or no term for the
  category of the channel, each channel function logs the warning about the texture terms
  and returns \<open>None\<close>: it probes nothing and links nothing, and it raises nothing. The
  caller receives what it receives on every other exit.
\<close>

theorem missing_terms_warning:
  assumes "image_path \<noteq> []" and "material \<noteq> []"
  shows "(term_names d ''BaseColor'' = [] \<or> term_names d ''Roughness'' = [] \<longrightarrow>
            set_maya_roughness_attributes os exists (Some d) image_path material =
              (Warning ''No valid texture terms found in the JSON data.'', []) \<and>
            python_return
              (fst (set_maya_roughness_attributes os exists (Some d) image_path material)) =
              Inr PyNone) \<and>
         (term_names d ''BaseColor'' = [] \<or> term_names d ''Metallic'' = [] \<longrightarrow>
            set_maya_metallic_attributes os exists (Some d) image_path material =
              (Warning ''No valid texture terms found in the JSON data.'', []) \<and>
            python_return
              (fst (set_maya_metallic_attributes os exists (Some d) image_path material)) =
              Inr PyNone) \<and>
         (term_names d ''BaseColor'' = [] \<or> term_names d ''Height'' = [] \<longrightarrow>
            set_maya_displacement_attributes os exists (Some d) image_path material =
              (Warning ''No valid texture terms found in the JSON data.'', []) \<and>
            python_return
              (fst (set_maya_displacement_attributes os exists (Some d) image_path material)) =
              Inr PyNone) \<and>
         (term_names d ''BaseColor'' = [] \<or> term_names d ''Normal'' = [] \<longrightarrow>
            set_maya_normal_attributes os exists (Some d) image_path material =
              (Warning ''No valid texture terms found in the JSON data.'', []) \<and>
            python_return
              (fst (set_maya_normal_attributes os exists (Some d) image_path material)) =
              Inr PyNone) \<and>
         (term_names d ''BaseColor'' = [] \<or> term_names d ''Opacity'' = [] \<longrightarrow>
            set_maya_opacity_attributes os exists (Some d) image_path material =
              (Warning ''No valid texture terms found in the JSON data.'', []) \<and>
            python_return
              (fst (set_maya_opacity_attributes os exists (Some d) image_path material)) =
              Inr PyNone)"
  using assms by (simp add: channel_defs link_channel_no_terms python_return_def)

lemma roughness_only_terms: "term_names roughness_only_dictionary ''BaseColor'' = []"
  by (simp add: term_names_def roughness_only_dictionary_def)

theorem missing_terms_warning_witness:
  "''Rock_BaseColor.tif'' \<noteq> [] \<and> ''aiStandardSurface1'' \<noteq> [] \<and>
   term_names rock_dictionary ''Metallic'' = [] \<and>
   set_maya_metallic_attributes posixpath (\<lambda>p. True) (Some rock_dictionary)
       ''Rock_BaseColor.tif'' ''aiStandardSurface1'' =
     (Warning ''No valid texture terms found in the JSON data.'', []) \<and>
   python_return
     (fst (set_maya_metallic_attributes posixpath (\<lambda>p. True) (Some rock_dictionary)
             ''Rock_BaseColor.tif'' ''aiStandardSurface1'')) = Inr PyNone \<and>
   term_names roughness_only_dictionary ''BaseColor'' = [] \<and>
   set_maya_roughness_attributes posixpath (\<lambda>p. True) (Some roughness_only_dictionary)
       ''Rock_BaseColor.tif'' ''aiStandardSurface1'' =
     (Warning ''No valid texture terms found in the JSON data.'', []) \<and>
   python_return
     (fst (set_maya_roughness_attributes posixpath (\<lambda>p. True) (Some roughness_only_dictionary)
             ''Rock_BaseColor.tif'' ''aiStandardSurface1'')) = Inr PyNone"
  using missing_terms_warning [of "''Rock_BaseColor.tif''" "''aiStandardSurface1''"
          rock_dictionary posixpath "\<lambda>p. True"]
        missing_terms_warning [of "''Rock_BaseColor.tif''" "''aiStandardSurface1''"
          roughness_only_dictionary posixpath "\<lambda>p. True"]
  by (auto simp add: rock_terms roughness_only_terms)

text \<open>
  C6, as the specification words it, fails. With no Metallic term in the dictionary the
  specification's resolver ends in a configuration error; the metallic function returns
  \<open>None\<close> to \<open>main\<close>, which is what the roughness function returns after linking
  \<open>Rock_Roughness.png\<close>, and \<open>main\<close> goes on through all six calls.
\<close>

theorem missing_terms_counterexample:
  "spec_resolve Posix (\<lambda>p. p = ''Rock_Roughness.png'') ''Rock_BaseColor.tif''
     (term_names rock_dictionary ''BaseColor'') (term_names rock_dictionary ''Metallic'')
     base_extensions = ConfigurationError \<and>
   python_return
     (fst (set_maya_metallic_attributes posixpath (\<lambda>p. p = ''Rock_Roughness.png'')
             (Some rock_dictionary) ''Rock_BaseColor.tif'' ''aiStandardSurface1'')) =
     Inr PyNone \<and>
   python_return
     (fst (set_maya_roughness_attributes posixpath (\<lambda>p. p = ''Rock_Roughness.png'')
             (Some rock_dictionary) ''Rock_BaseColor.tif'' ''aiStandardSurface1'')) =
     Inr PyNone \<and>
   main posixpath (\<lambda>p. p = ''Rock_Roughness.png'') (Some rock_dictionary)
     (Some ''aiStandardSurface1'') (Some ''Rock_BaseColor.tif'') =
     Called
       [(Linked ''Rock_BaseColor.tif'', []),
        (Warning ''No valid texture terms found in the JSON data.'', []),
        (Linked ''Rock_Roughness.png'',
         [''Rock_Roughness.exr'', ''Rock_Roughness.jpg'', ''Rock_Roughness.png'']),
        (Warning ''No valid texture terms found in the JSON data.'', []),
        (Warning ''No valid texture terms found in the JSON data.'', []),
        (Warning ''No valid texture terms found in the JSON data.'', [])]"
  by code_simp

text \<open>
  C7. When none of the candidates exists, each channel function ends with its
  "no texture found" warning: the outcome is a value of the function, no path is linked.
\<close>

theorem no_file_is_a_warning:
  assumes "image_path \<noteq> []" and "material \<noteq> []" and "term_names d ''BaseColor'' \<noteq> []"
  shows "(term_names d ''Roughness'' \<noteq> [] \<and>
          (\<forall>c\<in>set (channel_candidates (flavour os) (normpath os) base_extensions
                      (strip_lod (flavour os) image_path)
                      (term_names d ''Roughness'') (term_names d ''BaseColor'')). \<not> exists c) \<longrightarrow>
          fst (set_maya_roughness_attributes os exists (Some d) image_path material) =
            Warning ''No roughness texture found at path'') \<and>
         (term_names d ''Metallic'' \<noteq> [] \<and>
          (\<forall>c\<in>set (channel_candidates (flavour os) (\<lambda>p. p) base_extensions
                      (strip_lod (flavour os) image_path)
                      (term_names d ''Metallic'') (term_names d ''BaseColor'')). \<not> exists c) \<longrightarrow>
          fst (set_maya_metallic_attributes os exists (Some d) image_path material) =
            Warning ''No metallic texture found at path'') \<and>
         (term_names d ''Height'' \<noteq> [] \<and>
          (\<forall>c\<in>set (channel_candidates (flavour os) (\<lambda>p. p) (displacement_extensions d)
                      (strip_lod (flavour os) image_path)
                      (term_names d ''Height'') (term_names d ''BaseColor'')). \<not> exists c) \<longrightarrow>
          fst (set_maya_displacement_attributes os exists (Some d) image_path material) =
            Warning ''No displacement texture found at path'') \<and>
         (term_names d ''Normal'' \<noteq> [] \<and>
          (\<forall>c\<in>set (channel_candidates (flavour os) (\<lambda>p. p) base_extensions
                      (strip_lod (flavour os) image_path)
                      (term_names d ''Normal'') (term_names d ''BaseColor'')). \<not> exists c) \<longrightarrow>
          fst (set_maya_normal_attributes os exists (Some d) image_path material) =
            Warning ''No normal texture found at path'') \<and>
         (term_names d ''Opacity'' \<noteq> [] \<and>
          (\<forall>c\<in>set (channel_candidates (flavour os) (\<lambda>p. p) base_extensions
                      (strip_lod (flavour os) image_path)
                      (term_names d ''Opacity'') (term_names d ''BaseColor'')). \<not> exists c) \<longrightarrow>
          fst (set_maya_opacity_attributes os exists (Some d) image_path material) =
            Warning ''No opacity texture found at path'')"
  using assms by (simp add: channel_defs link_channel_all_miss)

theorem no_file_is_a_warning_witness:
  "''Rock_BaseColor.tif'' \<noteq> [] \<and> ''aiStandardSurface1'' \<noteq> [] \<and>
   term_names studio_dictionary ''BaseColor'' \<noteq> [] \<and>
   term_names studio_dictionary ''Roughness'' \<noteq> [] \<and>
   term_names studio_dictionary ''Metallic'' \<noteq> [] \<and>
   term_names studio_dictionary ''Height'' \<noteq> [] \<and>
   term_names studio_dictionary ''Normal'' \<noteq> [] \<and>
   term_names studio_dictionary ''Opacity'' \<noteq> [] \<and>
   fst (set_maya_roughness_attributes posixpath (\<lambda>p. False) (Some studio_dictionary)
          ''Rock_BaseColor.tif'' ''aiStandardSurface1'') =
     Warning ''No roughness texture found at path'' \<and>
   fst (set_maya_metallic_attributes posixpath (\<lambda>p. False) (Some studio_dictionary)
          ''Rock_BaseColor.tif'' ''aiStandardSurface1'') =
     Warning ''No metallic texture found at path'' \<and>
   fst (set_maya_displacement_attributes posixpath (\<lambda>p. False) (Some studio_dictionary)
          ''Rock_BaseColor.tif'' ''aiStandardSurface1'') =
     Warning ''No displacement texture found at path'' \<and>
   fst (set_maya_normal_attributes posixpath (\<lambda>p. False) (Some studio_dictionary)
          ''Rock_BaseColor.tif'' ''aiStandardSurface1'') =
     Warning ''No normal texture found at path'' \<and>
   fst (set_maya_opacity_attributes posixpath (\<lambda>p. False) (Some studio_dictionary)
          ''Rock_BaseColor.tif'' ''aiStandardSurface1'') =
     Warning ''No opacity texture found at path''"
  using no_file_is_a_warning [of "''Rock_BaseColor.tif''" "''aiStandardSurface1''"
          studio_dictionary posixpath "\<lambda>p. False"]
  by (simp add: studio_terms)

section \<open>Adding names to a category\<close>

lemma add_texture_name_saved:
  assumes "add_texture_name text_field selected_tab (Some d) = Inr (Saved d')"
  shows "\<exists>texture_type. texture_type_of_tab selected_tab = Some texture_type \<and>
           term_names d' texture_type =
             term_names d texture_type @ map strip (split_on (CHR '','') (strip text_field)) \<and>
           set (term_names d texture_type) \<inter>
             set (map strip (split_on (CHR '','') (strip text_field))) = {}"
proof -
  let ?names = "map strip (split_on (CHR '','') (strip text_field))"
  from assms obtain ty where ty: "texture_type_of_tab selected_tab = Some ty"
    by (auto simp add: add_texture_name_def Let_def split: if_splits option.splits)
  from assms ty have none: "filter (\<lambda>n. n \<in> set (term_names d ty)) ?names = []"
    and saved: "d' = d\<lparr>categories := (categories d)(ty \<mapsto>
        (case categories d ty of
           None \<Rightarrow> map (\<lambda>n. \<lparr>name = n, locked = False\<rparr>) ?names
         | Some entries \<Rightarrow> entries @ map (\<lambda>n. \<lparr>name = n, locked = False\<rparr>) ?names))\<rparr>"
    by (auto simp add: add_texture_name_def Let_def split: if_splits option.splits)
  have "term_names d' ty = term_names d ty @ ?names"
    unfolding saved by (simp add: term_names_def comp_def split: option.splits)
  moreover from none have "set (term_names d ty) \<inter> set ?names = {}"
    by (auto simp add: filter_empty_conv)
  ultimately show ?thesis using ty by blast
qed

lemma add_texture_name_rejected_example:
  "(case add_texture_name ''Diffuse, Albedo'' ''BaseColor'' (Some rock_dictionary) of
      Inr (Rejected duplicates) \<Rightarrow> duplicates = [''Albedo'']
    | _ \<Rightarrow> False)"
  by code_simp

lemma add_texture_name_saved_example:
  "(case add_texture_name ''Diffuse, Diffuse'' ''BaseColor'' (Some rock_dictionary) of
      Inr (Saved texture_data) \<Rightarrow>
        term_names texture_data ''BaseColor'' = [''BaseColor'', ''Albedo'', ''Diffuse'', ''Diffuse'']
    | _ \<Rightarrow> False)"
  by code_simp

text \<open>
  C9. A batch with a name that is already stored is rejected, but the names of a batch
  are not compared with each other: adding \<open>Diffuse, Diffuse\<close> to a category with
  distinct names stores \<open>Diffuse\<close> twice.
\<close>

theorem add_texture_name_batch_duplicates:
  "add_texture_name ''Diffuse, Albedo'' ''BaseColor'' (Some rock_dictionary) =
     Inr (Rejected [''Albedo'']) \<and>
   distinct (term_names rock_dictionary ''BaseColor'') \<and>
   (\<exists>texture_data.
      add_texture_name ''Diffuse, Diffuse'' ''BaseColor'' (Some rock_dictionary) =
        Inr (Saved texture_data) \<and>
      term_names texture_data ''BaseColor'' = [''BaseColor'', ''Albedo'', ''Diffuse'', ''Diffuse''] \<and>
      \<not> distinct (term_names texture_data ''BaseColor''))"
  using add_texture_name_rejected_example add_texture_name_saved_example
  by (auto simp add: rock_terms split: sum.splits add_outcome.splits)

section \<open>Validating the selected file\<close>

lemma startswith_iff: "startswith s t \<longleftrightarrow> (\<exists>post. s = t @ post)"
  unfolding startswith_def
  by (metis append_eq_conv_conj append_take_drop_id)

lemma py_in_iff: "py_in t s \<longleftrightarrow> (\<exists>pre post. s = pre @ t @ post)"
proof (induction s)
  case Nil
  show ?case by auto
next
  case (Cons c cs)
  show ?case
  proof
    assume "py_in t (c # cs)"
    then consider "startswith (c # cs) t" | "py_in t cs" by auto
    then show "\<exists>pre post. c # cs = pre @ t @ post"
    proof cases
      case 1
      then obtain post where "c # cs = t @ post" by (auto simp: startswith_iff)
      then have "c # cs = [] @ t @ post" by simp
      then show ?thesis by blast
    next
      case 2
      with Cons obtain pre post where "cs = pre @ t @ post" by auto
      then have "c # cs = (c # pre) @ t @ post" by simp
      then show ?thesis by blast
    qed
  next
    assume "\<exists>pre post. c # cs = pre @ t @ post"
    then obtain pre post where eq: "c # cs = pre @ t @ post" by blast
    show "py_in t (c # cs)"
    proof (cases pre)
      case Nil
      with eq have "startswith (c # cs) t" by (auto simp: startswith_iff)
      then show ?thesis by simp
    next
      case (Cons x pre')
      with eq have "cs = pre' @ t @ post" by simp
      with Cons.IH have "py_in t cs" by blast
      then show ?thesis by simp
    qed
  qed
qed

lemma any_term_in_iff: "any_term_in ts f \<longleftrightarrow> (\<exists>t\<in>set ts. py_in (lower t) f)"
  by (induction ts) auto

lemma lower_albedo: "lower ''albedo'' = ''albedo''"
  by code_simp

text \<open>
  C10. \<open>validate_image_file\<close> accepts a path exactly when the lower-cased base name
  contains the lower-cased form of a term of the dictionary or of one of \<open>basecolor\<close>,
  \<open>albedo\<close>, \<open>diffuse\<close>; so a base name containing \<open>albedo\<close> in any case is accepted
  whatever the dictionary holds.
\<close>

theorem validate_image_file_accepts:
  "(validate_image_file os file_path base_color_terms \<longleftrightarrow>
      (\<exists>t\<in>set base_color_terms \<union> {''basecolor'', ''albedo'', ''diffuse''}.
         \<exists>pre post. lower (basename os file_path) = pre @ lower t @ post)) \<and>
   ((\<exists>pre post. lower (basename os file_path) = pre @ ''albedo'' @ post) \<longrightarrow>
      validate_image_file os file_path base_color_terms)"
proof -
  have iff: "validate_image_file os file_path base_color_terms \<longleftrightarrow>
      (\<exists>t\<in>set base_color_terms \<union> {''basecolor'', ''albedo'', ''diffuse''}.
         \<exists>pre post. lower (basename os file_path) = pre @ lower t @ post)"
    by (simp add: validate_image_file_def Let_def additional_terms_def any_term_in_iff py_in_iff
          Bex_def Un_def disj_commute)
  have "validate_image_file os file_path base_color_terms"
    if "\<exists>pre post. lower (basename os file_path) = pre @ ''albedo'' @ post"
  proof -
    from that have "\<exists>pre post. lower (basename os file_path) = pre @ lower ''albedo'' @ post"
      by (simp add: lower_albedo)
    then show ?thesis unfolding iff by blast
  qed
  with iff show ?thesis by blast
qed

lemma basename_Rock_ALBEDO:
  "lower (basename posixpath ''/textures/Rock_ALBEDO.png'') = ''rock_'' @ ''albedo'' @ ''.png''"
  by code_simp

theorem validate_image_file_accepts_witness:
  "lower (basename posixpath ''/textures/Rock_ALBEDO.png'') = ''rock_'' @ ''albedo'' @ ''.png'' \<and>
   validate_image_file posixpath ''/textures/Rock_ALBEDO.png'' [''Kd'']"
proof -
  have "\<exists>pre post. lower (basename posixpath ''/textures/Rock_ALBEDO.png'') =
          pre @ ''albedo'' @ post"
    using basename_Rock_ALBEDO by blast
  with validate_image_file_accepts [of posixpath "''/textures/Rock_ALBEDO.png''" "[''Kd'']"]
  have "validate_image_file posixpath ''/textures/Rock_ALBEDO.png'' [''Kd'']"
    by blast
  with basename_Rock_ALBEDO show ?thesis by blast
qed

end
